theory Spec2Isabelle
  imports Complex_Main
begin

section \<open>JavaScript values, failures and identifier lookup\<close>

text \<open>
  The controllers are ES modules. An exception of the source is a value of \<open>js_error\<close>;
  a computation that may throw returns \<open>js_error + 'a\<close> (\<open>Inl\<close> is the throw).
  The numbers of the source are IEEE doubles. A finite double is a real number and the
  comparisons of doubles are the comparisons of these reals; where the source adds,
  subtracts, multiplies or divides numbers, the rounded operation is an argument of the
  model (\<open>rnd\<close>, \<open>double_ops\<close>), so that what is proved holds whatever the rounding is.
\<close>

datatype js_error =
    ReferenceError string  \<comment> \<open>an identifier that no enclosing scope binds\<close>
  | TypeError string       \<comment> \<open>member access on \<open>undefined\<close>\<close>
  | Error string           \<comment> \<open>\<open>throw new Error(msg)\<close>\<close>
  | NetworkError string    \<comment> \<open>a rejected promise of a remote call\<close>

datatype jsval =
    JUndefined
  | JBool bool
  | JNum real
  | JStr string
  | JObj "(string \<times> jsval) list"
  | JRef string            \<comment> \<open>a function or model object bound at module level\<close>

type_synonym scope = "(string \<times> jsval) list"

text \<open>Evaluating an identifier: the innermost binding, or a \<open>ReferenceError\<close>.\<close>

definition lookup_ident :: "scope \<Rightarrow> string \<Rightarrow> js_error + jsval" where
  "lookup_ident sc x = (case map_of sc x of None \<Rightarrow> Inl (ReferenceError x) | Some v \<Rightarrow> Inr v)"

definition module_bindings :: "string list \<Rightarrow> scope" where
  "module_bindings names = map (\<lambda>n. (n, JRef n)) names"

fun js_truthy :: "jsval \<Rightarrow> bool" where
  "js_truthy JUndefined = False"
| "js_truthy (JBool b) = b"
| "js_truthy (JNum x) = (x \<noteq> 0)"
| "js_truthy (JStr s) = (s \<noteq> [])"
| "js_truthy (JObj fs) = True"
| "js_truthy (JRef n) = True"

text \<open>\<open>a || b\<close>\<close>

definition js_or :: "jsval \<Rightarrow> jsval \<Rightarrow> jsval" where
  "js_or a b = (if js_truthy a then a else b)"

text \<open>\<open>v.k\<close>: throws on \<open>undefined\<close>, gives \<open>undefined\<close> for a missing property.\<close>

fun member :: "jsval \<Rightarrow> string \<Rightarrow> js_error + jsval" where
  "member JUndefined k = Inl (TypeError k)"
| "member (JObj fs) k = Inr (case map_of fs k of None \<Rightarrow> JUndefined | Some v \<Rightarrow> v)"
| "member v k = Inr JUndefined"

text \<open>\<open>v?.k\<close>\<close>

definition opt_member :: "jsval \<Rightarrow> string \<Rightarrow> js_error + jsval" where
  "opt_member v k = (if v = JUndefined then Inr JUndefined else member v k)"

text \<open>\<open>v?.k1.k2\<close>: the whole chain is skipped when \<open>v\<close> is \<open>undefined\<close>.\<close>

definition opt_member2 :: "jsval \<Rightarrow> string \<Rightarrow> string \<Rightarrow> js_error + jsval" where
  "opt_member2 v k1 k2 =
     (if v = JUndefined then Inr JUndefined
      else case member v k1 of Inl e \<Rightarrow> Inl e | Inr w \<Rightarrow> member w k2)"

text \<open>
  Evaluating an expression inside an \<open>async\<close> function: a throw ends the block with the
  store as it is at that point, a value is handed to the rest of the block.
\<close>

definition evaluating ::
  "js_error + 'a \<Rightarrow> 's \<Rightarrow> ('a \<Rightarrow> (js_error + 'b) \<times> 's) \<Rightarrow> (js_error + 'b) \<times> 's" where
  "evaluating v s k = (case v of Inl e \<Rightarrow> (Inl e, s) | Inr x \<Rightarrow> k x)"

text \<open>
  The values of a JavaScript number: the finite doubles (\<open>Finite 0\<close> is the positive
  zero), the negative zero, the two infinities and \<open>NaN\<close>.
\<close>

datatype jsnum = Finite real | NegZero | PosInfinity | NegInfinity | NaN

section \<open>Documents and the store\<close>

text \<open>
  Each collection of the document database is a list; the \<open>_id\<close> of a document is its
  position, so \<open>findById\<close> is a bounds-checked read, \<open>create\<close> appends, and \<open>save\<close> of a
  loaded document writes its position back. Reads and writes of the database are taken
  to succeed; the remote calls (gateway, oracle, file upload) may fail, and their answer
  is an argument of the function that makes the call. Log entries keep the action and
  the ids they are filed under; their metadata (IP address, device) is left out.
\<close>

datatype payment_status = Initiated | Confirmed | Rejected

datatype refund_status = Requested | Approved | RejectedRefund | Processed | Failed

datatype assignment_status = Assigned | PartiallyPaid | FullyPaid | Overdue

record request =
  req_ip :: string
  req_userAgent :: string

record fee =
  fee_schoolId :: nat
  fee_amount :: real
  allowPartialPayment :: bool

record school =
  school_name :: string
  paymentProviders :: "string list"

record student =
  student_name :: string
  student_email :: string
  studentType :: "string option"

record payment =
  p_studentId :: nat
  p_schoolId :: nat
  p_feeId :: nat
  p_amount :: real
  paymentProvider :: string
  p_status :: payment_status
  paystackRef :: "string option"
  paystackData :: "string option"

record fee_assignment =
  fa_feeId :: nat
  fa_studentId :: nat
  amountDue :: real
  amountPaid :: real
  fa_status :: assignment_status

record audit_entry =
  ae_action :: string
  ae_paystackRef :: "string option"
  ae_webhook :: bool

record refund =
  r_paymentId :: nat
  r_studentId :: nat
  r_schoolId :: nat
  r_amount :: real
  r_reason :: string
  r_status :: refund_status
  r_fraudScore :: real
  auditTrail :: "audit_entry list"

record receipt =
  rc_paymentId :: nat
  rc_amount :: real
  rc_pdfUrl :: string

record tx_log =
  tl_action :: string
  tl_paymentId :: "nat option"
  tl_refundId :: "nat option"
  tl_schoolId :: "nat option"

record audit_log =
  al_entityType :: string
  al_entityId :: nat
  al_action :: string

record fraud_log =
  fl_paymentId :: nat
  fl_reconstruction_error :: "jsnum option"
  fl_anomaly_scale :: "string option"
  fl_requestData :: "(string \<times> jsval) list"

record fraud_queue_entry =
  fq_paymentId :: nat
  fq_schoolId :: nat
  fq_requestData :: "(string \<times> jsval) list"
  fq_status :: string
  fq_retries :: nat

record store =
  fees :: "fee list"
  schools :: "school list"
  students :: "student list"
  payments :: "payment list"
  feeAssignments :: "fee_assignment list"
  refunds :: "refund list"
  receipts :: "receipt list"
  invoices :: "nat list"
  txLogs :: "tx_log list"
  auditLogs :: "audit_log list"
  fraudLogs :: "fraud_log list"
  fraudQueue :: "fraud_queue_entry list"

record response =
  code :: nat
  message :: string

definition findById :: "'a list \<Rightarrow> nat \<Rightarrow> 'a option" where
  "findById xs i = (if i < length xs then Some (xs ! i) else None)"

text \<open>\<open>Model.findOne(filter)\<close>: the position of the first document that matches.\<close>

fun findOne :: "('a \<Rightarrow> bool) \<Rightarrow> 'a list \<Rightarrow> nat option" where
  "findOne P [] = None"
| "findOne P (x # xs) =
     (if P x then Some 0 else case findOne P xs of None \<Rightarrow> None | Some i \<Rightarrow> Some (Suc i))"

definition logTx :: "string \<Rightarrow> nat option \<Rightarrow> nat option \<Rightarrow> nat option \<Rightarrow> store \<Rightarrow> store" where
  "logTx action pid rid sid s =
     s\<lparr>txLogs := txLogs s @
        [\<lparr>tl_action = action, tl_paymentId = pid, tl_refundId = rid, tl_schoolId = sid\<rparr>]\<rparr>"

section \<open>Fraud scoring (utils/fraudDetection.js)\<close>

definition mapStudentType :: "string \<Rightarrow> string" where
  "mapStudentType t =
     (if t \<in> set [''Full-time'', ''Part-time'', ''Foreign''] then ''university'' else ''middle'')"

definition mapPaymentMethod :: "string \<Rightarrow> string" where
  "mapPaymentMethod provider = (if provider = ''Paystack'' then ''Mobile Money'' else ''Bank'')"

text \<open>The arithmetic of line 64 on the numbers of the oracle: the rounded product and
  quotient with their special cases, and \<open>Math.min\<close>. It is an argument of the model.\<close>

record double_ops =
  d_mul :: "jsnum \<Rightarrow> jsnum \<Rightarrow> jsnum"   \<comment> \<open>\<open>a * b\<close>\<close>
  d_div :: "jsnum \<Rightarrow> jsnum \<Rightarrow> jsnum"   \<comment> \<open>\<open>a / b\<close>\<close>
  d_min :: "jsnum \<Rightarrow> jsnum \<Rightarrow> jsnum"   \<comment> \<open>\<open>Math.min(a, b)\<close>\<close>

text \<open>Line 64: \<open>Math.min((reconstruction_error / (threshold * 2.5)) * 100, 100)\<close>.\<close>

definition fraudScore :: "double_ops \<Rightarrow> jsnum \<Rightarrow> jsnum \<Rightarrow> jsnum" where
  "fraudScore ops reconstruction_error threshold =
     d_min ops
       (d_mul ops (d_div ops reconstruction_error (d_mul ops threshold (Finite 2.5)))
          (Finite 100))
       (Finite 100)"

datatype oracle_reply =
    OracleUnreachable string           \<comment> \<open>\<open>axios.post\<close> rejects\<close>
  | OracleMalformed                    \<comment> \<open>a body without the three fields\<close>
  | OracleReply jsnum jsnum string     \<comment> \<open>reconstruction_error, threshold, anomaly_scale\<close>

text \<open>
  What the queries of lines 24-44 return is an input. Line 6 binds the name
  \<open>FeeAssignmentModel\<close> to the default export of \<open>models/FraudLog.js\<close>, so the query of
  line 24 runs on that model; \<open>fr_feeAssignment\<close> is the \<open>amountDue\<close> read from the
  document it returns, if it returns one.
\<close>

record fraud_reads =
  fr_feeAssignment :: "real option"
  fr_lastTransaction :: "string option"   \<comment> \<open>\<open>metadata.deviceInfo\<close> of the latest entry\<close>
  fr_lastPayment :: "real option"         \<comment> \<open>whole days since the latest confirmed payment\<close>
  fr_oracle :: oracle_reply

record fraud_result =
  res_fraudScore :: jsnum
  res_anomaly_scale :: "string option"

text \<open>The names the module binds at top level (lines 1-19): six imports, one constant,
  two helper functions and the export.\<close>

definition fraudDetection_module :: scope where
  "fraudDetection_module = module_bindings
     [''axios'', ''TransactionLogModel'', ''FraudCheckQueueModel'', ''PaymentModel'',
      ''StudentModel'', ''FeeAssignmentModel'', ''ANOMALY_API_URL'', ''mapStudentType'',
      ''mapPaymentMethod'', ''checkFraud'']"

definition payment_obj :: "nat \<Rightarrow> payment \<Rightarrow> jsval" where
  "payment_obj pid p = JObj
     [(''_id'', JNum (real pid)), (''studentId'', JNum (real (p_studentId p))),
      (''schoolId'', JNum (real (p_schoolId p))), (''feeId'', JNum (real (p_feeId p))),
      (''amount'', JNum (p_amount p)), (''paymentProvider'', JStr (paymentProvider p))]"

definition request_obj :: "request \<Rightarrow> jsval" where
  "request_obj req = JObj
     [(''ip'', JStr (req_ip req)),
      (''headers'', JObj [(''user-agent'', JStr (req_userAgent req))])]"

fun error_message :: "js_error \<Rightarrow> string" where
  "error_message (ReferenceError x) = x @ '' is not defined''"
| "error_message (TypeError k) = ''Cannot read properties of undefined''"
| "error_message (Error m) = m"
| "error_message (NetworkError m) = m"

text \<open>
  The scope of the catch block (lines 91-123): the catch parameter, the three parameters
  of \<open>checkFraud\<close> and the module bindings. The \<open>const\<close> declarations of lines 21-64
  (\<open>student\<close>, \<open>feeAssignment\<close>, \<open>isNewDevice\<close>, \<open>timeSinceLastPaymentDays\<close>, ...) belong to
  the block of the \<open>try\<close> and are not part of it.
\<close>

definition catch_scope :: "nat \<Rightarrow> payment \<Rightarrow> request \<Rightarrow> js_error \<Rightarrow> scope" where
  "catch_scope pid p req err =
     [(''error'', JObj [(''message'', JStr (error_message err))]),
      (''payment'', payment_obj pid p), (''req'', request_obj req),
      (''session'', JRef ''session'')] @ fraudDetection_module"

definition mapStudentType_js :: "jsval \<Rightarrow> string" where
  "mapStudentType_js v = (case v of JStr t \<Rightarrow> mapStudentType t | _ \<Rightarrow> ''middle'')"

text \<open>Lines 20-90, the body of the \<open>try\<close>. The feature vector of lines 46-55 is sent to
  the oracle and stored with the fraud log; its \<open>timestamp\<close> is left out. The fields that a
  malformed body lacks are \<open>undefined\<close>, which line 64 reads as \<open>NaN\<close>.\<close>

definition checkFraud_try ::
  "double_ops \<Rightarrow> fraud_reads \<Rightarrow> nat \<Rightarrow> payment \<Rightarrow> request \<Rightarrow> store \<Rightarrow>
     (js_error + fraud_result) \<times> store" where
  "checkFraud_try ops rd pid p req s =
     (case findById (students s) (p_studentId p) of
        None \<Rightarrow> (Inl (Error ''Student not found''), s)
      | Some student \<Rightarrow>
     (case fr_feeAssignment rd of
        None \<Rightarrow> (Inl (Error ''Fee assignment not found''), s)
      | Some due \<Rightarrow>
          let isNewDevice = (case fr_lastTransaction rd of
                               None \<Rightarrow> True
                             | Some deviceInfo \<Rightarrow> deviceInfo \<noteq> req_userAgent req);
              timeSinceLastPaymentDays = (case fr_lastPayment rd of None \<Rightarrow> 30 | Some d \<Rightarrow> d);
              requestData =
                [(''fee_amount_due'', JNum due),
                 (''amount_paid'', JNum (p_amount p)),
                 (''payment_method'', JStr (mapPaymentMethod (paymentProvider p))),
                 (''student_type'', JStr (mapStudentType
                    (case studentType student of
                       None \<Rightarrow> ''Full-time''
                     | Some t \<Rightarrow> if t = [] then ''Full-time'' else t))),
                 (''is_new_device'', JBool isNewDevice),
                 (''student_name_match'', JBool True),
                 (''time_since_last_payment_days'', JNum timeSinceLastPaymentDays)]
          in
     (case fr_oracle rd of
        OracleUnreachable m \<Rightarrow> (Inl (NetworkError m), s)
      | reply \<Rightarrow>
          let score = (case reply of
                         OracleReply re th sc \<Rightarrow> fraudScore ops re th
                       | _ \<Rightarrow> fraudScore ops NaN NaN);
              scale = (case reply of OracleReply re th sc \<Rightarrow> Some sc | _ \<Rightarrow> None);
              recon = (case reply of OracleReply re th sc \<Rightarrow> Some re | _ \<Rightarrow> None);
              s1 = logTx ''fraud_check'' (Some pid) None (Some (p_schoolId p)) s
          in (case lookup_ident fraudDetection_module ''FraudLogModel'' of
                Inl e \<Rightarrow> (Inl e, s1)
              | Inr m \<Rightarrow>
                  (Inr \<lparr>res_fraudScore = score, res_anomaly_scale = scale\<rparr>,
                   s1\<lparr>fraudLogs := fraudLogs s1 @
                        [\<lparr>fl_paymentId = pid, fl_reconstruction_error = recon,
                          fl_anomaly_scale = scale, fl_requestData = requestData\<rparr>]\<rparr>)))))"

text \<open>Lines 91-123, the catch block; identifiers are evaluated in the order of the source.\<close>

definition checkFraud_catch ::
  "scope \<Rightarrow> nat \<Rightarrow> payment \<Rightarrow> store \<Rightarrow> (js_error + fraud_result) \<times> store" where
  "checkFraud_catch sc pid p s =
     (let s1 = logTx ''fraud_check_error'' (Some pid) None (Some (p_schoolId p)) s in
      evaluating (lookup_ident sc ''feeAssignment'') s1 (\<lambda>feeAssignment.
      evaluating (opt_member feeAssignment ''amountDue'') s1 (\<lambda>due.
      evaluating (lookup_ident sc ''student'') s1 (\<lambda>student.
      evaluating (opt_member2 student ''registrationInfo'' ''studentType'') s1 (\<lambda>stype.
      evaluating (lookup_ident sc ''isNewDevice'') s1 (\<lambda>isNewDevice.
      evaluating (lookup_ident sc ''timeSinceLastPaymentDays'') s1 (\<lambda>days.
        (Inr \<lparr>res_fraudScore = Finite 0, res_anomaly_scale = Some ''Low''\<rparr>,
         s1\<lparr>fraudQueue := fraudQueue s1 @
           [\<lparr>fq_paymentId = pid, fq_schoolId = p_schoolId p,
             fq_requestData =
               [(''fee_amount_due'', js_or due (JNum 0)),
                (''amount_paid'', JNum (p_amount p)),
                (''payment_method'', JStr (mapPaymentMethod (paymentProvider p))),
                (''student_type'', JStr (mapStudentType_js (js_or stype (JStr ''Full-time'')))),
                (''is_new_device'', js_or isNewDevice (JBool True)),
                (''student_name_match'', JBool True),
                (''time_since_last_payment_days'', js_or days (JNum 30))],
             fq_status = ''queued'', fq_retries = 0\<rparr>]\<rparr>))))))))"

definition checkFraud ::
  "double_ops \<Rightarrow> fraud_reads \<Rightarrow> nat \<Rightarrow> payment \<Rightarrow> request \<Rightarrow> store \<Rightarrow>
     (js_error + fraud_result) \<times> store" where
  "checkFraud ops rd pid p req s =
     (case checkFraud_try ops rd pid p req s of
        (Inr r, s1) \<Rightarrow> (Inr r, s1)
      | (Inl err, s1) \<Rightarrow> checkFraud_catch (catch_scope pid p req err) pid p s1)"

section \<open>Refund workflow (controller/refundController.js)\<close>

text \<open>
  Modelled from the spec: \<open>auditController.js\<close> is not under src/. \<open>logActionUtil\<close> is taken
  to append one record (entity type, entity id, action) to the audit log and not to fail.
\<close>

definition logActionUtil :: "string \<Rightarrow> nat \<Rightarrow> string \<Rightarrow> store \<Rightarrow> store" where
  "logActionUtil entityType entityId action s =
     s\<lparr>auditLogs := auditLogs s @
        [\<lparr>al_entityType = entityType, al_entityId = entityId, al_action = action\<rparr>]\<rparr>"

text \<open>Lines 405-409: the placeholder of the fraud score service.\<close>

definition calculateFraudScore :: "nat \<Rightarrow> real \<Rightarrow> nat \<Rightarrow> real" where
  "calculateFraudScore paymentId amount studentId = 0"

text \<open>Lines 30-34: the refunds of the payment with status approved or processed, and
  the \<open>reduce\<close> over their amounts, from 0 and in the order of the query. \<open>rnd\<close> is the
  rounding of double arithmetic: \<open>a + b\<close> of the source is \<open>rnd (a + b)\<close>, and \<open>a - b\<close> is
  \<open>rnd (a - b)\<close>.\<close>

definition existingRefunds :: "nat \<Rightarrow> refund list \<Rightarrow> refund list" where
  "existingRefunds paymentId rs =
     filter (\<lambda>r. r_paymentId r = paymentId \<and> (r_status r = Approved \<or> r_status r = Processed)) rs"

definition totalRefunded :: "(real \<Rightarrow> real) \<Rightarrow> nat \<Rightarrow> refund list \<Rightarrow> real" where
  "totalRefunded rnd paymentId rs =
     foldl (\<lambda>sum r. rnd (sum + r_amount r)) 0 (existingRefunds paymentId rs)"

text \<open>
  \<open>requestRefund\<close>, lines 12-98. \<open>studentId\<close> is \<open>req.user.id\<close>. The status check of lines
  25-27 is commented out in the source. The number interpolated into the message of
  line 37 is left out of \<open>message\<close>.
\<close>

definition requestRefund ::
  "(real \<Rightarrow> real) \<Rightarrow> nat \<Rightarrow> nat \<Rightarrow> real \<Rightarrow> string \<Rightarrow> request \<Rightarrow> store \<Rightarrow>
     response \<times> store" where
  "requestRefund rnd studentId paymentId amount reason req s =
     (case findById (payments s) paymentId of
        None \<Rightarrow> (\<lparr>code = 404, message = ''Payment not found''\<rparr>, s)
      | Some payment \<Rightarrow>
          if p_studentId payment \<noteq> studentId
          then (\<lparr>code = 403,
                 message = ''Unauthorized: Payment does not belong to this student''\<rparr>, s)
          else
            let refundableAmount =
                  rnd (p_amount payment - totalRefunded rnd paymentId (refunds s)) in
            if amount \<le> 0 \<or> amount > refundableAmount
            then (\<lparr>code = 400, message = ''Invalid refund amount''\<rparr>, s)
            else
              let refundId = length (refunds s);
                  refund = \<lparr>r_paymentId = paymentId, r_studentId = studentId,
                            r_schoolId = p_schoolId payment, r_amount = amount,
                            r_reason = reason, r_status = Requested,
                            r_fraudScore = calculateFraudScore paymentId amount studentId,
                            auditTrail = [\<lparr>ae_action = ''refund_requested'',
                                           ae_paystackRef = None, ae_webhook = False\<rparr>]\<rparr>;
                  s1 = s\<lparr>refunds := refunds s @ [refund]\<rparr>;
                  s2 = logTx ''refund_requested'' (Some paymentId) (Some refundId)
                         (Some (p_schoolId payment)) s1;
                  s3 = logActionUtil ''Refund'' refundId ''refund_requested'' s2
              in (\<lparr>code = 201, message = ''Refund requested successfully''\<rparr>, s3))"

text \<open>The answer of the gateway to \<open>POST /refund\<close> (lines 197-216).\<close>

datatype refund_reply =
    RefundAccepted              \<comment> \<open>\<open>paystackResponse.status === true\<close>\<close>
  | RefundDeclined string       \<comment> \<open>any other parsed body\<close>
  | RefundCallError string      \<comment> \<open>the promise rejects\<close>

definition decision_status :: "string \<Rightarrow> refund_status option" where
  "decision_status status =
     (if status = ''approved'' then Some Approved
      else if status = ''rejected'' then Some RejectedRefund else None)"

text \<open>
  \<open>reviewRefund\<close>, lines 101-272. \<open>adminId\<close> is \<open>req.user.id\<close>. \<open>populate('schoolId')\<close>
  loads the school of the refund; without one, line 111 throws and line 270 answers 500.
  The status check of lines 114-116 is commented out in the source. In the branch of
  line 259 the document in memory gets the status \<open>failed\<close> (\<open>refund2\<close>) and the function
  returns without \<open>refund.save()\<close>.
\<close>

definition reviewRefund ::
  "refund_reply \<Rightarrow> nat \<Rightarrow> nat \<Rightarrow> string \<Rightarrow> request \<Rightarrow> store \<Rightarrow> response \<times> store" where
  "reviewRefund gateway adminId refundId status req s =
     (case findById (refunds s) refundId of
        None \<Rightarrow> (\<lparr>code = 404, message = ''Refund not found''\<rparr>, s)
      | Some refund \<Rightarrow>
     (case findById (schools s) (r_schoolId refund) of
        None \<Rightarrow> (\<lparr>code = 500, message = ''Server error''\<rparr>, s)
      | Some school \<Rightarrow>
          if r_schoolId refund \<noteq> adminId
          then (\<lparr>code = 403,
                 message = ''Unauthorized: Refund does not belong to this school''\<rparr>, s)
          else
     (case decision_status status of
        None \<Rightarrow> (\<lparr>code = 400, message = ''Invalid status. Must be approved or rejected''\<rparr>, s)
      | Some st \<Rightarrow>
          let refund1 = refund\<lparr>r_status := st,
                          auditTrail := auditTrail refund @
                            [\<lparr>ae_action = ''refund_'' @ status, ae_paystackRef = None,
                              ae_webhook = False\<rparr>]\<rparr>;
              s1 = s\<lparr>refunds := (refunds s)[refundId := refund1]\<rparr>;
              s2 = logTx (''refund_'' @ status) (Some (r_paymentId refund)) (Some refundId)
                     (Some (r_schoolId refund)) s1;
              s3 = logActionUtil ''Refund'' refundId (''refund_'' @ status) s2
          in
          if status = ''approved'' then
            (case findById (payments s3) (r_paymentId refund1) of
               None \<Rightarrow> (\<lparr>code = 404, message = ''Associated payment not found''\<rparr>, s3)
             | Some payment \<Rightarrow>
                 if paymentProvider payment \<noteq> ''Paystack''
                 then (\<lparr>code = 400, message = ''Unsupported payment provider''\<rparr>, s3)
                 else if paystackRef payment = None \<or> paystackRef payment = Some []
                 then (\<lparr>code = 400, message = ''Paystack reference not found in payment''\<rparr>, s3)
                 else if ''Paystack'' \<notin> set (paymentProviders school)
                 then (\<lparr>code = 400, message = ''Paystack not configured for this school''\<rparr>, s3)
                 else
                   (case gateway of
                      RefundCallError m \<Rightarrow> (\<lparr>code = 500, message = ''Server error''\<rparr>, s3)
                    | RefundAccepted \<Rightarrow>
                        let refund2 = refund1\<lparr>r_status := Approved,
                                        auditTrail := auditTrail refund1 @
                                          [\<lparr>ae_action = ''refund_approved'',
                                            ae_paystackRef = paystackRef payment,
                                            ae_webhook = False\<rparr>]\<rparr>;
                            s4 = s3\<lparr>refunds := (refunds s3)[refundId := refund2]\<rparr>;
                            s5 = logTx ''refund_approved'' (Some (r_paymentId refund))
                                   (Some refundId) (Some (r_schoolId refund)) s4;
                            s6 = logActionUtil ''Refund'' refundId ''refund_approved'' s5
                        in (\<lparr>code = 200, message = ''Refund approved successfully''\<rparr>, s6)
                    | RefundDeclined m \<Rightarrow>
                        let refund2 = refund1\<lparr>r_status := Failed\<rparr>
                        in (\<lparr>code = 400, message = ''Paystack refund initiation failed''\<rparr>,
                            s3)))
          else (\<lparr>code = 200, message = ''Refund '' @ status @ '' successfully''\<rparr>, s3))))"

text \<open>
  A webhook delivery: the event name, \<open>data.transaction.reference\<close> (for the payment
  webhook \<open>data.reference\<close>), \<open>data.customer.email\<close> when \<open>data.customer\<close> is present, and the
  serialised body \<open>JSON.stringify(event)\<close>.
\<close>

record webhook_event =
  ev_event :: string
  ev_reference :: string
  ev_customer :: "string option"
  ev_raw :: string

text \<open>
  \<open>handleRefundWebhook\<close>, lines 275-402. The keyed hash of lines 282-285 is a parameter;
  \<open>signature\<close> is the header \<open>x-paystack-signature\<close>. Reading \<open>event.data.customer.email\<close>
  (lines 338, 390) throws when the event has no customer: the answer is then 500, after
  the refund and the transaction log were written.
\<close>

definition handleRefundWebhook ::
  "(string \<Rightarrow> string \<Rightarrow> string) \<Rightarrow> string \<Rightarrow> string \<Rightarrow> webhook_event \<Rightarrow> store \<Rightarrow>
     response \<times> store" where
  "handleRefundWebhook hmac_sha512_hex paystackSecret signature event s =
     (if hmac_sha512_hex paystackSecret (ev_raw event) \<noteq> signature
      then (\<lparr>code = 401, message = ''Invalid webhook signature''\<rparr>, s)
      else if ev_event event = ''refund.processed'' then
        (case findOne (\<lambda>p. paystackRef p = Some (ev_reference event)) (payments s) of
           None \<Rightarrow> (\<lparr>code = 404, message = ''Payment not found''\<rparr>, s)
         | Some pid \<Rightarrow>
        (case findOne (\<lambda>r. r_paymentId r = pid \<and>
                            (r_status r = Approved \<or> r_status r = Requested)) (refunds s) of
           None \<Rightarrow> (\<lparr>code = 404, message = ''Refund not found''\<rparr>, s)
         | Some rid \<Rightarrow>
             let refund = refunds s ! rid in
             if r_status refund \<noteq> Processed then
               let refund1 = refund\<lparr>r_status := Processed,
                               auditTrail := auditTrail refund @
                                 [\<lparr>ae_action = ''refund_processed'',
                                   ae_paystackRef = Some (ev_reference event),
                                   ae_webhook = True\<rparr>]\<rparr>;
                   s1 = s\<lparr>refunds := (refunds s)[rid := refund1]\<rparr>;
                   s2 = logTx ''refund_processed'' (Some (r_paymentId refund)) (Some rid)
                          (Some (r_schoolId refund)) s1
               in (case ev_customer event of
                     None \<Rightarrow> (\<lparr>code = 500, message = ''Server error''\<rparr>, s2)
                   | Some email \<Rightarrow>
                       (\<lparr>code = 200, message = ''Refund webhook processed successfully''\<rparr>,
                        logActionUtil ''Refund'' rid ''refund_processed'' s2))
             else (\<lparr>code = 200, message = ''Refund webhook processed successfully''\<rparr>, s)))
      else if ev_event event = ''refund.failed'' then
        (case findOne (\<lambda>p. paystackRef p = Some (ev_reference event)) (payments s) of
           None \<Rightarrow> (\<lparr>code = 404, message = ''Payment not found''\<rparr>, s)
         | Some pid \<Rightarrow>
        (case findOne (\<lambda>r. r_paymentId r = pid \<and>
                            (r_status r = Approved \<or> r_status r = Requested)) (refunds s) of
           None \<Rightarrow> (\<lparr>code = 404, message = ''Refund not found''\<rparr>, s)
         | Some rid \<Rightarrow>
             let refund = refunds s ! rid;
                 refund1 = refund\<lparr>r_status := Failed,
                             auditTrail := auditTrail refund @
                               [\<lparr>ae_action = ''refund_failed'',
                                 ae_paystackRef = Some (ev_reference event),
                                 ae_webhook = True\<rparr>]\<rparr>;
                 s1 = s\<lparr>refunds := (refunds s)[rid := refund1]\<rparr>;
                 s2 = logTx ''refund_failed'' (Some (r_paymentId refund)) (Some rid)
                        (Some (r_schoolId refund)) s1
             in (case ev_customer event of
                   None \<Rightarrow> (\<lparr>code = 500, message = ''Server error''\<rparr>, s2)
                 | Some email \<Rightarrow>
                     (\<lparr>code = 200, message = ''Refund webhook processed successfully''\<rparr>,
                      logActionUtil ''Refund'' rid ''refund_failed'' s2))))
      else (\<lparr>code = 200, message = ''Webhook event ignored''\<rparr>, s))"

section \<open>Payment workflow (controller/paymentController.js)\<close>

text \<open>
  Modelled from the spec: \<open>invoiceController.js\<close> is not under src/. \<open>createInvoice\<close> is taken
  to record one invoice for the payment and not to fail.
\<close>

definition createInvoice :: "nat \<Rightarrow> store \<Rightarrow> store" where
  "createInvoice paymentId s = s\<lparr>invoices := invoices s @ [paymentId]\<rparr>"

text \<open>
  Modelled from the spec: \<open>feeAssignController.js\<close> is not under src/. Settlement
  "increments FeeAssignment.amountPaid by payment.amount and recomputes status":
  \<open>fully_paid\<close> iff \<open>amountPaid \<ge> amountDue\<close>, otherwise \<open>partially_paid\<close> if
  \<open>amountPaid > 0\<close>, otherwise the status stays.
\<close>

definition updateFeeAssignmentStatus :: "nat \<Rightarrow> store \<Rightarrow> store" where
  "updateFeeAssignmentStatus paymentId s =
     (case findById (payments s) paymentId of
        None \<Rightarrow> s
      | Some payment \<Rightarrow>
     (case findOne (\<lambda>a. fa_feeId a = p_feeId payment \<and> fa_studentId a = p_studentId payment)
             (feeAssignments s) of
        None \<Rightarrow> s
      | Some aid \<Rightarrow>
          let assignment = feeAssignments s ! aid;
              paid = amountPaid assignment + p_amount payment
          in s\<lparr>feeAssignments := (feeAssignments s)[aid := assignment
                 \<lparr>amountPaid := paid,
                  fa_status := (if paid \<ge> amountDue assignment then FullyPaid
                                else if paid > 0 then PartiallyPaid
                                else fa_status assignment)\<rparr>]\<rparr>))"

text \<open>The names the module binds at top level: the imports of lines 1-19, the two
  constants of lines 21-22 and the three exported functions.\<close>

definition paymentController_module :: scope where
  "paymentController_module = module_bindings
     [''https'', ''PaymentModel'', ''FeeModel'', ''SchoolModel'', ''TransactionLogModel'',
      ''logActionUtil'', ''createInvoice'', ''updateFeeAssignmentStatus'', ''axios'',
      ''FeeAssignmentModel'', ''ReceiptModel'', ''StudentModel'', ''cloudinary'', ''jsPDF'',
      ''sendFraudAlertEmail'', ''sendReceipt'', ''mongoose'', ''COLORS'', ''autoTable'',
      ''checkFraud'', ''PAYSTACK_BASE_URL'', ''PAYSTACK_SECRET_KEY'', ''initializePayment'',
      ''verifyPayment'', ''handleWebhook'']"

datatype init_reply =
    InitOk string string     \<comment> \<open>\<open>data.reference\<close> and \<open>data.authorization_url\<close>\<close>
  | InitRefused string       \<comment> \<open>a body whose \<open>status\<close> is falsy\<close>
  | InitCallError string     \<comment> \<open>the promise of lines 107-124 rejects\<close>

datatype upload_reply = UploadOk string | UploadError string

text \<open>What the outside world answers during one \<open>initializePayment\<close>: the gateway, the
  file upload, the mail transport, and whether \<open>TransactionLogModel.create\<close> succeeds.\<close>

record init_env =
  gw_init :: init_reply
  upload :: upload_reply
  email_ok :: bool
  log_ok :: bool

text \<open>
  Lines 27-283, the body of the \<open>try\<close>. \<open>studentId\<close> is \<open>req.user.id\<close>. Writes made with
  \<open>{ session }\<close> (the payment of line 138, the receipt of line 221) are held back until
  \<open>commitTransaction\<close> (line 276) and reach the store only there; every earlier exit leaves
  them out. \<open>assignment.save()\<close> (line 157) and the log of line 247 are made without the
  session and reach the store at once; the sum of line 152 is a double sum, \<open>rnd\<close> being
  its rounding. Line 243 calls \<open>sendFeeAssignmentEmail\<close>; no parameter or local of the
  function has that name, so it is looked up in the module.
\<close>

definition initializePayment_try ::
  "(real \<Rightarrow> real) \<Rightarrow> init_env \<Rightarrow> nat \<Rightarrow> nat \<Rightarrow> real \<Rightarrow> request \<Rightarrow> store \<Rightarrow>
     (js_error + response) \<times> store" where
  "initializePayment_try rnd env studentId feeId amount req s =
     (case findById (fees s) feeId of
        None \<Rightarrow> (Inr \<lparr>code = 404, message = ''Fee not found''\<rparr>, s)
      | Some fee \<Rightarrow>
          if amount < fee_amount fee \<and> \<not> allowPartialPayment fee
          then (Inr \<lparr>code = 400, message = ''Partial payments not allowed for this fee''\<rparr>, s)
          else if amount \<le> 0
          then (Inr \<lparr>code = 400, message = ''Amount must be greater than 0''\<rparr>, s)
          else
     (case findById (schools s) (fee_schoolId fee) of
        None \<Rightarrow> (Inr \<lparr>code = 404, message = ''School not found''\<rparr>, s)
      | Some school \<Rightarrow>
          if ''Paystack'' \<notin> set (paymentProviders school)
          then (Inr \<lparr>code = 400, message = ''Paystack not configured for this school''\<rparr>, s)
          else
            let schoolId = fee_schoolId fee;
                paymentId = length (payments s);
                payment = \<lparr>p_studentId = studentId, p_schoolId = schoolId, p_feeId = feeId,
                             p_amount = amount, paymentProvider = ''Paystack'',
                             p_status = Initiated, paystackRef = None, paystackData = None\<rparr>
            in
     (case gw_init env of
        InitCallError m \<Rightarrow> (Inl (NetworkError m), s)
      | InitRefused m \<Rightarrow> (Inr \<lparr>code = 500, message = ''Paystack initialization failed''\<rparr>, s)
      | InitOk reference url \<Rightarrow>
          let payment1 = payment\<lparr>paystackRef := Some reference\<rparr> in
     (case findOne (\<lambda>a. fa_feeId a = p_feeId payment1 \<and> fa_studentId a = p_studentId payment1)
             (feeAssignments s) of
        None \<Rightarrow> (Inr \<lparr>code = 404, message = ''Fee assignment not found''\<rparr>, s)
      | Some aid \<Rightarrow>
          let assignment = feeAssignments s ! aid;
              paid = rnd (amountPaid assignment + p_amount payment1);
              assignment1 = assignment\<lparr>amountPaid := paid,
                              fa_status := (if paid \<ge> amountDue assignment
                                            then FullyPaid else PartiallyPaid)\<rparr>;
              s1 = s\<lparr>feeAssignments := (feeAssignments s)[aid := assignment1]\<rparr>
          in
     (case findById (students s1) studentId of
        None \<Rightarrow> (Inr \<lparr>code = 404, message = ''Student not found''\<rparr>, s1)
      | Some student \<Rightarrow>
     (case upload env of
        UploadError m \<Rightarrow> (Inl (Error m), s1)
      | UploadOk pdfUrl \<Rightarrow>
          let receipt = \<lparr>rc_paymentId = paymentId, rc_amount = amount, rc_pdfUrl = pdfUrl\<rparr> in
          evaluating (lookup_ident paymentController_module ''sendFeeAssignmentEmail'') s1
            (\<lambda>sendFeeAssignmentEmail.
               if \<not> email_ok env then (Inl (Error ''email not sent''), s1)
               else
                 let s2 = (if log_ok env
                           then logTx ''receipt_generated'' (Some paymentId) None (Some schoolId) s1
                           else s1);
                     s3 = s2\<lparr>payments := payments s2 @ [payment1],
                            receipts := receipts s2 @ [receipt]\<rparr>
                 in (Inr \<lparr>code = 200, message = ''Payment initialized successfully''\<rparr>,
                     s3))))))))"

text \<open>
  \<open>initializePayment\<close>, lines 24-318: the \<open>try\<close> and its \<open>catch\<close> (lines 284-317), which
  aborts the transaction, tries to log the error and answers 500.
\<close>

definition initializePayment ::
  "(real \<Rightarrow> real) \<Rightarrow> init_env \<Rightarrow> nat \<Rightarrow> nat \<Rightarrow> real \<Rightarrow> request \<Rightarrow> store \<Rightarrow>
     response \<times> store" where
  "initializePayment rnd env studentId feeId amount req s =
     (case initializePayment_try rnd env studentId feeId amount req s of
        (Inr r, s1) \<Rightarrow> (r, s1)
      | (Inl err, s1) \<Rightarrow>
          (\<lparr>code = 500, message = ''Server error''\<rparr>,
           if log_ok env
           then logTx ''payment_initialization_error'' None None
                  (map_option fee_schoolId (findById (fees s1) feeId)) s1
           else s1))"

datatype verify_reply =
    VerifySuccess string     \<comment> \<open>\<open>data.status\<close> and \<open>data.data.status === "success"\<close>; the payload\<close>
  | VerifyFailure string     \<comment> \<open>any other body\<close>
  | VerifyCallError string   \<comment> \<open>\<open>axios.get\<close> rejects\<close>

text \<open>\<open>verifyPayment\<close>, lines 322-418. \<open>reference\<close> is \<open>req.query.reference\<close>.\<close>

definition verifyPayment ::
  "verify_reply \<Rightarrow> string \<Rightarrow> request \<Rightarrow> store \<Rightarrow> response \<times> store" where
  "verifyPayment gateway reference req s =
     (case findOne (\<lambda>p. paystackRef p = Some reference) (payments s) of
        None \<Rightarrow> (\<lparr>code = 404, message = ''Payment not found''\<rparr>, s)
      | Some pid \<Rightarrow>
          let payment = payments s ! pid in
     (case gateway of
        VerifyCallError m \<Rightarrow> (\<lparr>code = 500, message = ''Server error''\<rparr>, s)
      | VerifySuccess data \<Rightarrow>
          let payment1 = payment\<lparr>p_status := Confirmed, paystackData := Some data\<rparr>;
              s1 = s\<lparr>payments := (payments s)[pid := payment1]\<rparr>;
              s2 = logTx ''payment_confirmed'' (Some pid) None (Some (p_schoolId payment)) s1;
              s3 = logActionUtil ''Payment'' pid ''payment_confirmed'' s2;
              s4 = createInvoice pid s3;
              s5 = updateFeeAssignmentStatus pid s4
          in (\<lparr>code = 200, message = ''Payment verified successfully''\<rparr>, s5)
      | VerifyFailure m \<Rightarrow>
          let payment1 = payment\<lparr>p_status := Rejected\<rparr>;
              s1 = s\<lparr>payments := (payments s)[pid := payment1]\<rparr>;
              s2 = logActionUtil ''Payment'' pid ''payment_rejected'' s1
          in (\<lparr>code = 400, message = ''Payment verification failed''\<rparr>, s2)))"

text \<open>\<open>handleWebhook\<close>, lines 421-526. \<open>ev_reference\<close> is \<open>event.data.reference\<close> and
  \<open>ev_raw\<close> stands for \<open>event.data\<close>.\<close>

definition handleWebhook :: "webhook_event \<Rightarrow> request \<Rightarrow> store \<Rightarrow> response \<times> store" where
  "handleWebhook event req s =
     (if ev_event event = ''charge.success'' then
        (case findOne (\<lambda>p. paystackRef p = Some (ev_reference event)) (payments s) of
           None \<Rightarrow> (\<lparr>code = 404, message = ''Payment not found''\<rparr>, s)
         | Some pid \<Rightarrow>
             let payment = payments s ! pid in
             if p_status payment \<noteq> Confirmed then
               let payment1 = payment\<lparr>p_status := Confirmed,
                                 paystackData := Some (ev_raw event)\<rparr>;
                   s1 = s\<lparr>payments := (payments s)[pid := payment1]\<rparr>;
                   s2 = logTx ''payment_confirmed'' (Some pid) None (Some (p_schoolId payment)) s1;
                   s3 = logActionUtil ''Payment'' pid ''payment_confirmed'' s2;
                   s4 = createInvoice pid s3;
                   s5 = updateFeeAssignmentStatus pid s4
               in (\<lparr>code = 200, message = ''Webhook processed successfully''\<rparr>, s5)
             else (\<lparr>code = 200, message = ''Webhook processed successfully''\<rparr>, s))
      else if ev_event event = ''charge.failed'' then
        (case findOne (\<lambda>p. paystackRef p = Some (ev_reference event)) (payments s) of
           None \<Rightarrow> (\<lparr>code = 404, message = ''Payment not found''\<rparr>, s)
         | Some pid \<Rightarrow>
             let payment = payments s ! pid;
                 payment1 = payment\<lparr>p_status := Rejected\<rparr>;
                 s1 = s\<lparr>payments := (payments s)[pid := payment1]\<rparr>;
                 s2 = logTx ''payment_rejected'' (Some pid) None (Some (p_schoolId payment)) s1;
                 s3 = logActionUtil ''Payment'' pid ''payment_rejected'' s2
             in (\<lparr>code = 200, message = ''Webhook processed successfully''\<rparr>, s3))
      else (\<lparr>code = 200, message = ''Webhook event ignored''\<rparr>, s))"

section \<open>Concrete inputs\<close>

definition empty_store :: store where
  "empty_store = \<lparr>fees = [], schools = [], students = [], payments = [], feeAssignments = [],
     refunds = [], receipts = [], invoices = [], txLogs = [], auditLogs = [], fraudLogs = [],
     fraudQueue = []\<rparr>"

definition req0 :: request where
  "req0 = \<lparr>req_ip = ''10.0.0.1'', req_userAgent = ''agent''\<rparr>"

definition pay0 :: payment where
  "pay0 = \<lparr>p_studentId = 0, p_schoolId = 0, p_feeId = 0, p_amount = 5000,
     paymentProvider = ''Paystack'', p_status = Initiated, paystackRef = Some ''R1'',
     paystackData = None\<rparr>"


definition reads_down :: fraud_reads where
  "reads_down = \<lparr>fr_feeAssignment = None, fr_lastTransaction = None, fr_lastPayment = None,
     fr_oracle = OracleUnreachable ''timeout''\<rparr>"

definition school0 :: school where
  "school0 = \<lparr>school_name = ''School'', paymentProviders = [''Paystack'']\<rparr>"

definition student0 :: student where
  "student0 = \<lparr>student_name = ''Ada'', student_email = ''ada@example.org'',
     studentType = Some ''Full-time''\<rparr>"

definition fee0 :: fee where
  "fee0 = \<lparr>fee_schoolId = 0, fee_amount = 5000, allowPartialPayment = False\<rparr>"

definition assignment0 :: fee_assignment where
  "assignment0 = \<lparr>fa_feeId = 0, fa_studentId = 0, amountDue = 5000, amountPaid = 0,
     fa_status = Assigned\<rparr>"

text \<open>One school, one student, one fee of 5000 that forbids partial payment.\<close>

definition base_store :: store where
  "base_store = empty_store\<lparr>fees := [fee0], schools := [school0], students := [student0],
     feeAssignments := [assignment0]\<rparr>"

text \<open>The same with a payment of 5000, reference \<open>R1\<close>, still \<open>initiated\<close>.\<close>

definition paid_store :: store where
  "paid_store = base_store\<lparr>payments := [pay0]\<rparr>"

definition refund0 :: refund where
  "refund0 = \<lparr>r_paymentId = 0, r_studentId = 0, r_schoolId = 0, r_amount = 2000,
     r_reason = ''overpaid'', r_status = Requested, r_fraudScore = 0,
     auditTrail = [\<lparr>ae_action = ''refund_requested'', ae_paystackRef = None,
                    ae_webhook = False\<rparr>]\<rparr>"

text \<open>A refund of 2000 on that payment, as requested and as rejected by the school.\<close>

definition requested_store :: store where
  "requested_store = paid_store\<lparr>refunds := [refund0]\<rparr>"

definition rejected_store :: store where
  "rejected_store = paid_store\<lparr>refunds := [refund0\<lparr>r_status := RejectedRefund\<rparr>]\<rparr>"

text \<open>The same payment with a refund of 2000 approved and a refund of 1000 requested.\<close>

definition approved_store :: store where
  "approved_store = paid_store\<lparr>refunds :=
     [refund0\<lparr>r_status := Approved\<rparr>, refund0\<lparr>r_amount := 1000\<rparr>]\<rparr>"

text \<open>The amounts of the concrete inputs are whole numbers far below \<open>2^53\<close>; their sums
  and differences are doubles themselves, so double arithmetic does not round them.\<close>

definition no_rounding :: "real \<Rightarrow> real" where
  "no_rounding x = x"

text \<open>Two requests of 4000 each on the payment of 5000, then both approved by the school
  with the gateway accepting.\<close>

definition two_requests_store :: store where
  "two_requests_store =
     snd (requestRefund no_rounding 0 0 4000 ''second'' req0
       (snd (requestRefund no_rounding 0 0 4000 ''first'' req0 paid_store)))"

definition over_approved_store :: store where
  "over_approved_store =
     snd (reviewRefund RefundAccepted 0 1 ''approved'' req0
       (snd (reviewRefund RefundAccepted 0 0 ''approved'' req0 two_requests_store)))"

definition env_ok :: init_env where
  "env_ok = \<lparr>gw_init = InitOk ''R1'' ''https://pay'', upload = UploadOk ''https://pdf'',
     email_ok = True, log_ok = True\<rparr>"

definition env_refused :: init_env where
  "env_refused = env_ok\<lparr>gw_init := InitRefused ''declined''\<rparr>"

definition env_call_error :: init_env where
  "env_call_error = env_ok\<lparr>gw_init := InitCallError ''socket hang up''\<rparr>"

definition env_upload_fails :: init_env where
  "env_upload_fails = env_ok\<lparr>upload := UploadError ''upload failed''\<rparr>"

definition charge_success :: webhook_event where
  "charge_success = \<lparr>ev_event = ''charge.success'', ev_reference = ''R1'',
     ev_customer = Some ''ada@example.org'', ev_raw = ''data''\<rparr>"

definition charge_failed :: webhook_event where
  "charge_failed = \<lparr>ev_event = ''charge.failed'', ev_reference = ''R1'',
     ev_customer = Some ''ada@example.org'', ev_raw = ''data''\<rparr>"

definition refund_processed :: webhook_event where
  "refund_processed = \<lparr>ev_event = ''refund.processed'', ev_reference = ''R1'',
     ev_customer = Some ''ada@example.org'', ev_raw = ''body''\<rparr>"

text \<open>The payment of \<open>paid_store\<close> after the gateway's \<open>charge.success\<close> webhook.\<close>

definition confirmed_store :: store where
  "confirmed_store = snd (handleWebhook charge_success req0 paid_store)"

section \<open>Fraud scoring: what the code does\<close>

lemma lookup_FraudLogModel:
  "lookup_ident fraudDetection_module ''FraudLogModel'' = Inl (ReferenceError ''FraudLogModel'')"
  by (simp add: lookup_ident_def fraudDetection_module_def module_bindings_def)

lemma lookup_catch_feeAssignment:
  "lookup_ident (catch_scope pid p req err) ''feeAssignment'' =
     Inl (ReferenceError ''feeAssignment'')"
  by (simp add: lookup_ident_def catch_scope_def fraudDetection_module_def module_bindings_def)

text \<open>The body of the \<open>try\<close> never completes: line 81 evaluates an unbound name.\<close>

lemma checkFraud_try_throws:
  "\<exists>e s1. checkFraud_try ops rd pid p req s = (Inl e, s1) \<and> fraudQueue s1 = fraudQueue s"
  by (simp add: checkFraud_try_def lookup_FraudLogModel logTx_def Let_def
      split: option.split oracle_reply.split)

lemma checkFraud_catch_throws:
  "checkFraud_catch (catch_scope pid p req err) pid p s =
     (Inl (ReferenceError ''feeAssignment''),
      logTx ''fraud_check_error'' (Some pid) None (Some (p_schoolId p)) s)"
  by (simp add: checkFraud_catch_def lookup_catch_feeAssignment evaluating_def Let_def)

lemma checkFraud_always_throws:
  "fst (checkFraud ops rd pid p req s) = Inl (ReferenceError ''feeAssignment'') \<and>
   fraudQueue (snd (checkFraud ops rd pid p req s)) = fraudQueue s"
proof -
  obtain e s1 where t: "checkFraud_try ops rd pid p req s = (Inl e, s1)"
    and q: "fraudQueue s1 = fraudQueue s"
    using checkFraud_try_throws by blast
  show ?thesis
    by (simp add: checkFraud_def t q checkFraud_catch_throws logTx_def)
qed

text \<open>
  C3 (the code differs). The claim: on every failure \<open>checkFraud\<close> returns the fallback
  \<open>{fraudScore: 0, anomaly_scale: "Low"}\<close> and creates one queue entry. On the code, for a
  payment whose student does not exist and an unreachable oracle, the catch block writes
  the \<open>fraud_check_error\<close> log entry and then throws
  \<open>ReferenceError: feeAssignment is not defined\<close> while it builds the queue entry: the
  exception leaves \<open>checkFraud\<close>, nothing is returned and nothing is queued.
\<close>

theorem checkFraud_missing_student_throws:
  "checkFraud ops reads_down 0 pay0 req0 empty_store =
     (Inl (ReferenceError ''feeAssignment''),
      empty_store\<lparr>txLogs := [\<lparr>tl_action = ''fraud_check_error'', tl_paymentId = Some 0,
        tl_refundId = None, tl_schoolId = Some 0\<rparr>]\<rparr>) \<and>
   fraudQueue (snd (checkFraud ops reads_down 0 pay0 req0 empty_store)) = []"
proof -
  have t: "checkFraud_try ops reads_down 0 pay0 req0 empty_store =
             (Inl (Error ''Student not found''), empty_store)"
    by (simp add: checkFraud_try_def findById_def empty_store_def)
  have c: "checkFraud ops reads_down 0 pay0 req0 empty_store =
             (Inl (ReferenceError ''feeAssignment''),
              logTx ''fraud_check_error'' (Some 0) None (Some (p_schoolId pay0)) empty_store)"
    by (simp add: checkFraud_def t checkFraud_catch_throws)
  show ?thesis
    unfolding c by (simp add: logTx_def empty_store_def pay0_def)
qed


section \<open>Shared facts\<close>

lemmas store_defs = paid_store_def base_store_def empty_store_def pay0_def school0_def
  student0_def fee0_def assignment0_def req0_def refund0_def

lemmas refund_defs = requestRefund_def reviewRefund_def findById_def totalRefunded_def
  existingRefunds_def logTx_def logActionUtil_def calculateFraudScore_def decision_status_def
  Let_def

lemmas payment_defs = verifyPayment_def handleWebhook_def updateFeeAssignmentStatus_def
  createInvoice_def logTx_def logActionUtil_def findById_def Let_def

lemma findOne_Some: "findOne P xs = Some i \<Longrightarrow> i < length xs \<and> P (xs ! i)"
proof (induction xs arbitrary: i)
  case Nil
  then show ?case by simp
next
  case (Cons x xs)
  then show ?case
    by (auto split: if_splits option.splits)
qed

section \<open>Refund workflow: what the code does\<close>

text \<open>The \<open>reduce\<close> of line 34 as a fold over the amounts of the refunds that count.\<close>

lemma totalRefunded_amounts:
  "totalRefunded rnd pid rs =
     foldl (\<lambda>sum a. rnd (sum + a)) 0
       (map r_amount (filter (\<lambda>r. r_paymentId r = pid \<and>
          (r_status r = Approved \<or> r_status r = Processed)) rs))"
  by (simp add: totalRefunded_def existingRefunds_def foldl_map)

lemma requestRefund_reject:
  assumes "findById (payments s) paymentId = Some payment" "p_studentId payment = studentId"
    "amount \<le> 0 \<or> amount > rnd (p_amount payment - totalRefunded rnd paymentId (refunds s))"
  shows "requestRefund rnd studentId paymentId amount reason req s =
           (\<lparr>code = 400, message = ''Invalid refund amount''\<rparr>, s)"
  using assms by (auto simp: requestRefund_def Let_def)

lemma requestRefund_accept:
  assumes "findById (payments s) paymentId = Some payment" "p_studentId payment = studentId"
    "0 < amount" "amount \<le> rnd (p_amount payment - totalRefunded rnd paymentId (refunds s))"
  shows "requestRefund rnd studentId paymentId amount reason req s =
           (\<lparr>code = 201, message = ''Refund requested successfully''\<rparr>,
            logActionUtil ''Refund'' (length (refunds s)) ''refund_requested''
              (logTx ''refund_requested'' (Some paymentId) (Some (length (refunds s)))
                 (Some (p_schoolId payment))
                 (s\<lparr>refunds := refunds s @
                    [\<lparr>r_paymentId = paymentId, r_studentId = studentId,
                      r_schoolId = p_schoolId payment, r_amount = amount, r_reason = reason,
                      r_status = Requested, r_fraudScore = 0,
                      auditTrail = [\<lparr>ae_action = ''refund_requested'', ae_paystackRef = None,
                                     ae_webhook = False\<rparr>]\<rparr>]\<rparr>)))"
  using assms by (simp add: requestRefund_def Let_def calculateFraudScore_def)

text \<open>
  C2 as stated fails in its conclusion: two requests of 4000 on a payment of 5000 are both
  accepted (a refund that is only \<open>requested\<close> does not count), the school approves both,
  and the approved refunds of the payment add up to 8000.
\<close>

theorem refund_cap_exceeded_counterexample:
  "map code [fst (requestRefund no_rounding 0 0 4000 ''first'' req0 paid_store),
             fst (requestRefund no_rounding 0 0 4000 ''second'' req0
                    (snd (requestRefund no_rounding 0 0 4000 ''first'' req0 paid_store))),
             fst (reviewRefund RefundAccepted 0 0 ''approved'' req0 two_requests_store),
             fst (reviewRefund RefundAccepted 0 1 ''approved'' req0
                    (snd (reviewRefund RefundAccepted 0 0 ''approved'' req0 two_requests_store)))]
     = [201, 201, 200, 200] \<and>
   map r_status (refunds over_approved_store) = [Approved, Approved] \<and>
   map r_paymentId (refunds over_approved_store) = [0, 0] \<and>
   map r_amount (refunds over_approved_store) = [4000, 4000] \<and>
   map p_amount (payments over_approved_store) = [5000] \<and>
   \<not> (4000 + 4000 \<le> p_amount (payments over_approved_store ! 0))"
  by (simp add: over_approved_store_def two_requests_store_def store_defs refund_defs
      no_rounding_def)

text \<open>
  C2 (amended). For a payment that exists and belongs to the requesting student,
  \<open>requestRefund\<close> rejects with "Invalid refund amount", storing nothing, if and only if
  the amount is \<open>\<le> 0\<close> or exceeds the refundable amount. The refundable amount is the
  payment's amount minus the sum of the amounts of its refunds whose status is approved
  or processed, the sum being taken from 0 in the order of the refunds and both the sum
  and the difference in double arithmetic. Hence a request is accepted (201) if and only
  if its amount is positive and does not exceed the refundable amount computed in this
  way at that moment.
\<close>

theorem requestRefund_amount_check:
  assumes "findById (payments s) paymentId = Some payment"
    and "p_studentId payment = studentId"
  shows "(requestRefund rnd studentId paymentId amount reason req s =
            (\<lparr>code = 400, message = ''Invalid refund amount''\<rparr>, s) \<longleftrightarrow>
          amount \<le> 0 \<or>
          amount > rnd (p_amount payment -
            foldl (\<lambda>sum a. rnd (sum + a)) 0
              (map r_amount (filter (\<lambda>r. r_paymentId r = paymentId \<and>
                 (r_status r = Approved \<or> r_status r = Processed)) (refunds s))))) \<and>
         (code (fst (requestRefund rnd studentId paymentId amount reason req s)) = 201 \<longleftrightarrow>
          0 < amount \<and>
          amount \<le> rnd (p_amount payment -
            foldl (\<lambda>sum a. rnd (sum + a)) 0
              (map r_amount (filter (\<lambda>r. r_paymentId r = paymentId \<and>
                 (r_status r = Approved \<or> r_status r = Processed)) (refunds s)))))"
proof (cases "amount \<le> 0 \<or>
    amount > rnd (p_amount payment - totalRefunded rnd paymentId (refunds s))")
  case True
  then show ?thesis
    using requestRefund_reject [where rnd = rnd and reason = reason and req = req,
        OF assms True]
    by (auto simp: totalRefunded_amounts)
next
  case False
  then have a: "0 < amount"
    and b: "amount \<le> rnd (p_amount payment - totalRefunded rnd paymentId (refunds s))"
    by auto
  show ?thesis
    using requestRefund_accept [where rnd = rnd and reason = reason and req = req,
        OF assms a b] a b
    by (auto simp: totalRefunded_amounts)
qed

theorem requestRefund_amount_check_witness:
  "findById (payments approved_store) 0 = Some pay0 \<and> p_studentId pay0 = 0 \<and>
   map r_status (refunds approved_store) = [Approved, Requested] \<and>
   map r_amount (refunds approved_store) = [2000, 1000] \<and>
   requestRefund no_rounding 0 0 3001 ''too much'' req0 approved_store =
     (\<lparr>code = 400, message = ''Invalid refund amount''\<rparr>, approved_store) \<and>
   code (fst (requestRefund no_rounding 0 0 3000 ''the rest'' req0 approved_store)) = 201"
proof -
  have f: "findById (payments approved_store) 0 = Some pay0"
    by (simp add: approved_store_def paid_store_def findById_def)
  have o: "p_studentId pay0 = 0"
    by (simp add: pay0_def)
  have r: "refunds approved_store =
             [refund0\<lparr>r_status := Approved\<rparr>, refund0\<lparr>r_amount := 1000\<rparr>]"
    by (simp add: approved_store_def)
  show ?thesis
    using requestRefund_amount_check [OF f o, of no_rounding 3001 "''too much''" req0]
      requestRefund_amount_check [OF f o, of no_rounding 3000 "''the rest''" req0]
    by (simp add: f o r refund0_def pay0_def no_rounding_def)
qed

text \<open>
  C8 (the code differs). The claim: when the gateway declines, the refund is persisted as
  \<open>failed\<close> with an audit entry. On the code, the review of a requested refund with a
  declining gateway answers 400 "Paystack refund initiation failed", but the stored
  refund keeps the status \<open>approved\<close> written at line 128 and its audit trail ends with
  \<open>refund_approved\<close>: line 261 changes the document in memory only.
\<close>

theorem reviewRefund_declined_not_persisted:
  "fst (reviewRefund (RefundDeclined ''declined'') 0 0 ''approved'' req0 requested_store) =
     \<lparr>code = 400, message = ''Paystack refund initiation failed''\<rparr> \<and>
   map r_status (refunds (snd (reviewRefund (RefundDeclined ''declined'') 0 0 ''approved'' req0
      requested_store))) = [Approved] \<and>
   map (map ae_action \<circ> auditTrail) (refunds (snd (reviewRefund (RefundDeclined ''declined'')
      0 0 ''approved'' req0 requested_store))) = [[''refund_requested'', ''refund_approved'']]"
  by (simp add: requested_store_def store_defs refund_defs)

text \<open>
  C9 as stated fails: a rejected refund that the school reviews again with the decision
  \<open>approved\<close> becomes \<open>approved\<close>.
\<close>

theorem rejected_refund_reapproved_counterexample:
  "map r_status (refunds rejected_store) = [RejectedRefund] \<and>
   fst (reviewRefund RefundAccepted 0 0 ''approved'' req0 rejected_store) =
     \<lparr>code = 200, message = ''Refund approved successfully''\<rparr> \<and>
   map r_status (refunds (snd (reviewRefund RefundAccepted 0 0 ''approved'' req0 rejected_store)))
     = [Approved]"
  by (simp add: rejected_store_def store_defs refund_defs)

text \<open>
  C9 (amended). No refund webhook changes the status of a rejected refund (the webhook
  only selects refunds that are approved or requested), and a review with the decision
  \<open>rejected\<close> leaves it rejected. A review with the decision \<open>approved\<close> is not excluded:
  \<open>reviewRefund\<close> does not look at the current status.
\<close>

theorem rejected_refund_kept:
  assumes "i < length (refunds s)" and "r_status (refunds s ! i) = RejectedRefund"
  shows "r_status (refunds (snd (handleRefundWebhook h secret sig ev s)) ! i) = RejectedRefund \<and>
         r_status (refunds (snd (reviewRefund gw adminId refundId ''rejected'' req s)) ! i)
           = RejectedRefund"
proof -
  have "r_status (refunds (snd (handleRefundWebhook h secret sig ev s)) ! i) = RejectedRefund"
    using assms
    by (auto simp: handleRefundWebhook_def Let_def logTx_def logActionUtil_def nth_list_update
        split: option.splits dest!: findOne_Some)
  moreover
  have "r_status (refunds (snd (reviewRefund gw adminId refundId ''rejected'' req s)) ! i)
          = RejectedRefund"
    using assms
    by (auto simp: reviewRefund_def findById_def decision_status_def Let_def logTx_def
        logActionUtil_def nth_list_update split: option.splits)
  ultimately show ?thesis by simp
qed

theorem rejected_refund_kept_witness:
  "0 < length (refunds rejected_store) \<and> r_status (refunds rejected_store ! 0) = RejectedRefund \<and>
   r_status (refunds (snd (handleRefundWebhook (\<lambda>k m. k @ m) ''key'' ''keybody''
      refund_processed rejected_store)) ! 0) = RejectedRefund \<and>
   r_status (refunds (snd (reviewRefund RefundAccepted 0 0 ''rejected'' req0 rejected_store)) ! 0)
     = RejectedRefund"
proof -
  have l: "0 < length (refunds rejected_store)"
    by (simp add: rejected_store_def)
  have r: "r_status (refunds rejected_store ! 0) = RejectedRefund"
    by (simp add: rejected_store_def)
  show ?thesis
    using rejected_refund_kept [OF l r, of "\<lambda>k m. k @ m" "''key''" "''keybody''"
        refund_processed RefundAccepted 0 0 req0] l r
    by simp
qed

text \<open>
  C10. \<open>requestRefund\<close> does not look at the status of the payment: for every payment that
  exists and belongs to the requesting student, whatever its status, a request with a
  valid amount, that is \<open>0 < amount \<le> refundable\<close> with the refundable amount as line 35
  computes it in double arithmetic, is answered 201 and appends one refund with status
  \<open>requested\<close>.
\<close>

theorem requestRefund_any_payment_status:
  assumes "findById (payments s) paymentId = Some payment"
    and "p_studentId payment = studentId"
    and "p_status payment = st"
    and "0 < amount"
    and "amount \<le> rnd (p_amount payment - totalRefunded rnd paymentId (refunds s))"
  shows "fst (requestRefund rnd studentId paymentId amount reason req s) =
           \<lparr>code = 201, message = ''Refund requested successfully''\<rparr> \<and>
         (\<exists>r. refunds (snd (requestRefund rnd studentId paymentId amount reason req s)) =
                 refunds s @ [r] \<and>
              r_status r = Requested \<and> r_amount r = amount \<and> r_paymentId r = paymentId \<and>
              r_studentId r = studentId)"
  by (simp add: requestRefund_accept [where rnd = rnd, OF assms(1,2,4,5)] logTx_def
      logActionUtil_def)

theorem requestRefund_any_payment_status_witness:
  "findById (payments approved_store) 0 = Some pay0 \<and> p_studentId pay0 = 0 \<and>
   p_status pay0 = Initiated \<and> (0::real) < 3000 \<and>
   3000 \<le> no_rounding (p_amount pay0 - totalRefunded no_rounding 0 (refunds approved_store)) \<and>
   fst (requestRefund no_rounding 0 0 3000 ''the rest'' req0 approved_store) =
     \<lparr>code = 201, message = ''Refund requested successfully''\<rparr> \<and>
   map r_status (refunds (snd (requestRefund no_rounding 0 0 3000 ''the rest'' req0
     approved_store))) = [Approved, Requested, Requested]"
proof -
  have f: "findById (payments approved_store) 0 = Some pay0"
    by (simp add: approved_store_def paid_store_def findById_def)
  have o: "p_studentId pay0 = 0" and i: "p_status pay0 = Initiated"
    by (simp_all add: pay0_def)
  have a: "(0::real) < 3000"
    by simp
  have b: "3000 \<le> no_rounding (p_amount pay0 -
             totalRefunded no_rounding 0 (refunds approved_store))"
    by (simp add: approved_store_def refund0_def pay0_def totalRefunded_def
        existingRefunds_def no_rounding_def)
  have r: "refunds approved_store =
             [refund0\<lparr>r_status := Approved\<rparr>, refund0\<lparr>r_amount := 1000\<rparr>]"
    by (simp add: approved_store_def)
  show ?thesis
    using requestRefund_any_payment_status [where rnd = no_rounding and
          reason = "''the rest''" and req = req0, OF f o i a b]
      requestRefund_accept [where rnd = no_rounding and reason = "''the rest''" and
          req = req0, OF f o a b] f o i a b
    by (simp add: r refund0_def logTx_def logActionUtil_def)
qed

section \<open>Payment workflow: what the code does\<close>

lemma payments_updateFeeAssignmentStatus:
  "payments (updateFeeAssignmentStatus pid s) = payments s"
  by (simp add: updateFeeAssignmentStatus_def Let_def split: option.split)

lemma lookup_sendFeeAssignmentEmail:
  "lookup_ident paymentController_module ''sendFeeAssignmentEmail'' =
     Inl (ReferenceError ''sendFeeAssignmentEmail'')"
  by (simp add: lookup_ident_def paymentController_module_def module_bindings_def)

text \<open>
  C1 (the code differs). The claim: a second confirmation of a confirmed payment is a
  no-op and the amount paid grows by one payment amount in total. On the code, after the
  \<open>charge.success\<close> webhook has confirmed the payment of 5000 (amount paid 5000, one
  invoice), a \<open>verifyPayment\<close> for the same reference with the gateway reporting success
  answers 200 and runs invoice creation and settlement again: amount paid 10000, two
  invoices. A repeated webhook, in contrast, changes nothing.
\<close>

theorem verifyPayment_settles_again:
  "map p_status (payments confirmed_store) = [Confirmed] \<and>
   map amountPaid (feeAssignments confirmed_store) = [5000] \<and>
   invoices confirmed_store = [0] \<and>
   snd (handleWebhook charge_success req0 confirmed_store) = confirmed_store \<and>
   fst (verifyPayment (VerifySuccess ''data'') ''R1'' req0 confirmed_store) =
     \<lparr>code = 200, message = ''Payment verified successfully''\<rparr> \<and>
   map amountPaid (feeAssignments
     (snd (verifyPayment (VerifySuccess ''data'') ''R1'' req0 confirmed_store))) = [10000] \<and>
   invoices (snd (verifyPayment (VerifySuccess ''data'') ''R1'' req0 confirmed_store)) = [0, 0]"
  by (simp add: confirmed_store_def charge_success_def store_defs payment_defs)

text \<open>
  C5 as stated fails: a \<open>charge.failed\<close> event for a confirmed payment sets its status to
  \<open>rejected\<close>.
\<close>

theorem confirmed_payment_rejected_counterexample:
  "map p_status (payments confirmed_store) = [Confirmed] \<and>
   fst (handleWebhook charge_failed req0 confirmed_store) =
     \<lparr>code = 200, message = ''Webhook processed successfully''\<rparr> \<and>
   map p_status (payments (snd (handleWebhook charge_failed req0 confirmed_store))) = [Rejected]"
  by (simp add: confirmed_store_def charge_success_def charge_failed_def store_defs payment_defs)

text \<open>
  C5 (amended). The status of a payment is not terminal. Whenever \<open>verifyPayment\<close> or the
  charge webhook finds the payment of a reference, its status afterwards is what the
  gateway reports, whatever it was before: \<open>confirmed\<close> after a successful verification or
  a \<open>charge.success\<close> event, \<open>rejected\<close> after a failed verification or a \<open>charge.failed\<close>
  event; the status of every other payment is unchanged.
\<close>

theorem payment_status_follows_report:
  assumes "findOne (\<lambda>p. paystackRef p = Some reference) (payments s) = Some pid"
    and "ev_reference ev = reference"
  shows "p_status (payments (snd (verifyPayment (VerifySuccess d) reference req s)) ! pid)
           = Confirmed \<and>
         p_status (payments (snd (verifyPayment (VerifyFailure m) reference req s)) ! pid)
           = Rejected \<and>
         (ev_event ev = ''charge.success'' \<longrightarrow>
            p_status (payments (snd (handleWebhook ev req s)) ! pid) = Confirmed) \<and>
         (ev_event ev = ''charge.failed'' \<longrightarrow>
            p_status (payments (snd (handleWebhook ev req s)) ! pid) = Rejected) \<and>
         (j \<noteq> pid \<longrightarrow>
            p_status (payments (snd (verifyPayment gw reference req s)) ! j)
              = p_status (payments s ! j) \<and>
            p_status (payments (snd (handleWebhook ev req s)) ! j) = p_status (payments s ! j))"
proof -
  have b: "pid < length (payments s)"
    using findOne_Some [OF assms(1)] by simp
  have v: "p_status (payments (snd (verifyPayment (VerifySuccess d) reference req s)) ! pid)
             = Confirmed"
      "p_status (payments (snd (verifyPayment (VerifyFailure m) reference req s)) ! pid)
             = Rejected"
      "j \<noteq> pid \<longrightarrow> p_status (payments (snd (verifyPayment gw reference req s)) ! j)
             = p_status (payments s ! j)"
    using assms(1) b
    by (auto simp: verifyPayment_def createInvoice_def logTx_def logActionUtil_def Let_def
        payments_updateFeeAssignmentStatus split: verify_reply.split)
  have w: "ev_event ev = ''charge.success'' \<longrightarrow>
             p_status (payments (snd (handleWebhook ev req s)) ! pid) = Confirmed"
      "ev_event ev = ''charge.failed'' \<longrightarrow>
             p_status (payments (snd (handleWebhook ev req s)) ! pid) = Rejected"
      "j \<noteq> pid \<longrightarrow> p_status (payments (snd (handleWebhook ev req s)) ! j)
             = p_status (payments s ! j)"
    using assms b
    by (auto simp: handleWebhook_def createInvoice_def logTx_def logActionUtil_def Let_def
        payments_updateFeeAssignmentStatus)
  from v w show ?thesis by simp
qed

theorem payment_status_follows_report_witness:
  "findOne (\<lambda>p. paystackRef p = Some ''R1'') (payments confirmed_store) = Some 0 \<and>
   ev_reference charge_failed = ''R1'' \<and> ev_event charge_failed = ''charge.failed'' \<and>
   p_status (payments confirmed_store ! 0) = Confirmed \<and>
   p_status (payments (snd (verifyPayment (VerifyFailure ''abandoned'') ''R1'' req0
      confirmed_store)) ! 0) = Rejected \<and>
   p_status (payments (snd (handleWebhook charge_failed req0 confirmed_store)) ! 0) = Rejected"
proof -
  have p: "payments confirmed_store =
             [pay0\<lparr>p_status := Confirmed, paystackData := Some ''data''\<rparr>]"
    by (simp add: confirmed_store_def charge_success_def store_defs payment_defs)
  have f: "findOne (\<lambda>p. paystackRef p = Some ''R1'') (payments confirmed_store) = Some 0"
    by (simp add: p pay0_def)
  have e: "ev_reference charge_failed = ''R1''"
    by (simp add: charge_failed_def)
  have k: "ev_event charge_failed = ''charge.failed''"
    by (simp add: charge_failed_def)
  show ?thesis
    using payment_status_follows_report [OF f e, of "''data''" req0 "''abandoned''" 1
        "VerifyFailure ''abandoned''"] f e k
    by (simp add: p)
qed

text \<open>
  C4 as stated fails in its second half: when the receipt upload fails after the gateway
  has accepted, the request is answered 500 and no payment is stored; the failure is
  fatal to the initialization.
\<close>

theorem receipt_failure_rolls_back_counterexample:
  "fst (initializePayment no_rounding env_upload_fails 0 0 5000 req0 base_store) =
     \<lparr>code = 500, message = ''Server error''\<rparr> \<and>
   payments (snd (initializePayment no_rounding env_upload_fails 0 0 5000 req0 base_store)) = []"
  by (simp add: initializePayment_def initializePayment_try_def env_upload_fails_def env_ok_def
      store_defs findById_def logTx_def Let_def)

text \<open>
  C4 (amended). For a request that passes the checks of lines 33-73 (the fee exists, the
  amount is not below the fee's amount when partial payment is forbidden, the amount is
  positive, the school exists and has Paystack configured):
  if the gateway refuses the initialization, the answer is 500 "Paystack initialization
  failed" and the store is left as it was;
  if the call to the gateway fails, the answer is 500 "Server error" and the store is
  left as it was except for one \<open>payment_initialization_error\<close> entry in the transaction
  log (none if that write fails too);
  if the gateway accepts, the fee assignment and the student exist and the upload of the
  receipt fails, the upload error is thrown to the handler of line 284, which aborts the
  transaction: the answer is 500 "Server error" and no payment and no receipt persist.
  The receipt is made inside the transaction, before the commit.
\<close>

theorem initializePayment_failures:
  assumes "findById (fees s) feeId = Some fee"
    and "\<not> (amount < fee_amount fee \<and> \<not> allowPartialPayment fee)"
    and "0 < amount"
    and "findById (schools s) (fee_schoolId fee) = Some school"
    and "''Paystack'' \<in> set (paymentProviders school)"
  shows "(gw_init env = InitRefused m \<longrightarrow>
            initializePayment rnd env sid feeId amount req s =
              (\<lparr>code = 500, message = ''Paystack initialization failed''\<rparr>, s)) \<and>
         (gw_init env = InitCallError m \<longrightarrow>
            initializePayment rnd env sid feeId amount req s =
              (\<lparr>code = 500, message = ''Server error''\<rparr>,
               if log_ok env
               then logTx ''payment_initialization_error'' None None (Some (fee_schoolId fee)) s
               else s)) \<and>
         (gw_init env = InitOk reference url \<and>
          findOne (\<lambda>a. fa_feeId a = feeId \<and> fa_studentId a = sid) (feeAssignments s)
            = Some aid \<and>
          findById (students s) sid = Some student \<and>
          upload env = UploadError m \<longrightarrow>
            fst (initializePayment_try rnd env sid feeId amount req s) = Inl (Error m) \<and>
            fst (initializePayment rnd env sid feeId amount req s) =
              \<lparr>code = 500, message = ''Server error''\<rparr> \<and>
            payments (snd (initializePayment rnd env sid feeId amount req s)) = payments s \<and>
            receipts (snd (initializePayment rnd env sid feeId amount req s)) = receipts s)"
proof -
  have r: "gw_init env = InitRefused m \<longrightarrow>
            initializePayment rnd env sid feeId amount req s =
              (\<lparr>code = 500, message = ''Paystack initialization failed''\<rparr>, s)"
    using assms by (auto simp: initializePayment_def initializePayment_try_def Let_def)
  have c: "gw_init env = InitCallError m \<longrightarrow>
            initializePayment rnd env sid feeId amount req s =
              (\<lparr>code = 500, message = ''Server error''\<rparr>,
               if log_ok env
               then logTx ''payment_initialization_error'' None None (Some (fee_schoolId fee)) s
               else s)"
    using assms by (auto simp: initializePayment_def initializePayment_try_def Let_def)
  have t: "gw_init env = InitOk reference url \<and>
          findOne (\<lambda>a. fa_feeId a = feeId \<and> fa_studentId a = sid) (feeAssignments s)
            = Some aid \<and>
          findById (students s) sid = Some student \<and>
          upload env = UploadError m \<longrightarrow>
            fst (initializePayment_try rnd env sid feeId amount req s) = Inl (Error m) \<and>
            payments (snd (initializePayment_try rnd env sid feeId amount req s)) = payments s \<and>
            receipts (snd (initializePayment_try rnd env sid feeId amount req s)) = receipts s"
    using assms by (auto simp: initializePayment_try_def findById_def Let_def)
  have u: "gw_init env = InitOk reference url \<and>
          findOne (\<lambda>a. fa_feeId a = feeId \<and> fa_studentId a = sid) (feeAssignments s)
            = Some aid \<and>
          findById (students s) sid = Some student \<and>
          upload env = UploadError m \<longrightarrow>
            fst (initializePayment rnd env sid feeId amount req s) =
              \<lparr>code = 500, message = ''Server error''\<rparr> \<and>
            payments (snd (initializePayment rnd env sid feeId amount req s)) = payments s \<and>
            receipts (snd (initializePayment rnd env sid feeId amount req s)) = receipts s"
    using t by (auto simp: initializePayment_def logTx_def split: prod.split sum.split)
  from r c t u show ?thesis by simp
qed

theorem initializePayment_failures_witness:
  "findById (fees base_store) 0 = Some fee0 \<and>
   \<not> (5000 < fee_amount fee0 \<and> \<not> allowPartialPayment fee0) \<and> (0::real) < 5000 \<and>
   findById (schools base_store) (fee_schoolId fee0) = Some school0 \<and>
   ''Paystack'' \<in> set (paymentProviders school0) \<and>
   gw_init env_refused = InitRefused ''declined'' \<and>
   initializePayment no_rounding env_refused 0 0 5000 req0 base_store =
     (\<lparr>code = 500, message = ''Paystack initialization failed''\<rparr>, base_store) \<and>
   gw_init env_call_error = InitCallError ''socket hang up'' \<and> log_ok env_call_error \<and>
   initializePayment no_rounding env_call_error 0 0 5000 req0 base_store =
     (\<lparr>code = 500, message = ''Server error''\<rparr>,
      logTx ''payment_initialization_error'' None None (Some 0) base_store) \<and>
   gw_init env_upload_fails = InitOk ''R1'' ''https://pay'' \<and>
   findOne (\<lambda>a. fa_feeId a = 0 \<and> fa_studentId a = 0) (feeAssignments base_store) = Some 0 \<and>
   findById (students base_store) 0 = Some student0 \<and>
   upload env_upload_fails = UploadError ''upload failed'' \<and>
   fst (initializePayment_try no_rounding env_upload_fails 0 0 5000 req0 base_store) =
     Inl (Error ''upload failed'') \<and>
   fst (initializePayment no_rounding env_upload_fails 0 0 5000 req0 base_store) =
     \<lparr>code = 500, message = ''Server error''\<rparr> \<and>
   payments (snd (initializePayment no_rounding env_upload_fails 0 0 5000 req0 base_store)) = [] \<and>
   receipts (snd (initializePayment no_rounding env_upload_fails 0 0 5000 req0 base_store)) = []"
proof -
  have f: "findById (fees base_store) 0 = Some fee0"
    by (simp add: base_store_def empty_store_def findById_def)
  have p: "\<not> (5000 < fee_amount fee0 \<and> \<not> allowPartialPayment fee0)"
    by (simp add: fee0_def)
  have a: "(0::real) < 5000"
    by simp
  have c: "findById (schools base_store) (fee_schoolId fee0) = Some school0"
    by (simp add: base_store_def empty_store_def findById_def fee0_def)
  have k: "''Paystack'' \<in> set (paymentProviders school0)"
    by (simp add: school0_def)
  have e: "gw_init env_refused = InitRefused ''declined''"
    "gw_init env_call_error = InitCallError ''socket hang up''" "log_ok env_call_error"
    "gw_init env_upload_fails = InitOk ''R1'' ''https://pay''"
    "upload env_upload_fails = UploadError ''upload failed''"
    by (simp_all add: env_refused_def env_call_error_def env_upload_fails_def env_ok_def)
  have g: "findOne (\<lambda>a. fa_feeId a = 0 \<and> fa_studentId a = 0) (feeAssignments base_store)
             = Some 0"
    by (simp add: base_store_def empty_store_def assignment0_def)
  have t: "findById (students base_store) 0 = Some student0"
    by (simp add: base_store_def empty_store_def findById_def)
  have v: "payments base_store = []" "receipts base_store = []" "fee_schoolId fee0 = 0"
    by (simp_all add: base_store_def empty_store_def fee0_def)
  show ?thesis
    using initializePayment_failures [where rnd = no_rounding and env = env_refused and
          m = "''declined''" and sid = 0 and req = req0, OF f p a c k]
      initializePayment_failures [where rnd = no_rounding and env = env_call_error and
          m = "''socket hang up''" and sid = 0 and req = req0, OF f p a c k]
      initializePayment_failures [where rnd = no_rounding and env = env_upload_fails and
          m = "''upload failed''" and sid = 0 and req = req0 and reference = "''R1''" and
          url = "''https://pay''" and aid = 0 and student = student0, OF f p a c k]
      f p a c k e g t v
    by simp
qed

text \<open>
  C7 as stated fails: 7000 against a fee of 5000 that forbids partial payment is not
  rejected as a partial payment; the request passes the checks and is sent to the
  gateway, whose refusal is what the caller gets back.
\<close>

theorem overpayment_not_rejected_counterexample:
  "fee_amount fee0 = 5000 \<and> \<not> allowPartialPayment fee0 \<and>
   fst (initializePayment no_rounding env_refused 0 0 7000 req0 base_store) =
     \<lparr>code = 500, message = ''Paystack initialization failed''\<rparr> \<and>
   fst (initializePayment no_rounding env_refused 0 0 7000 req0 base_store) \<noteq>
     \<lparr>code = 400, message = ''Partial payments not allowed for this fee''\<rparr>"
  by (simp add: initializePayment_def initializePayment_try_def env_refused_def env_ok_def
      store_defs findById_def Let_def)

text \<open>
  C7 (amended). For every fee that forbids partial payment, \<open>initializePayment\<close> answers
  "Partial payments not allowed for this fee" exactly for the amounts below the fee's
  amount (3000 against a fee of 5000), and then changes nothing; an amount equal to or
  above the fee's amount passes this check.
\<close>

theorem partial_payment_check:
  assumes "findById (fees s) feeId = Some fee" and "\<not> allowPartialPayment fee"
  shows "(fst (initializePayment rnd env sid feeId amount req s) =
            \<lparr>code = 400, message = ''Partial payments not allowed for this fee''\<rparr>
          \<longleftrightarrow> amount < fee_amount fee) \<and>
         (amount < fee_amount fee \<longrightarrow> snd (initializePayment rnd env sid feeId amount req s) = s)"
  using assms
  by (simp add: initializePayment_def initializePayment_try_def lookup_sendFeeAssignmentEmail
      evaluating_def Let_def split: option.split init_reply.split upload_reply.split)

theorem partial_payment_check_witness:
  "findById (fees base_store) 0 = Some fee0 \<and> \<not> allowPartialPayment fee0 \<and>
   fee_amount fee0 = 5000 \<and>
   initializePayment no_rounding env_ok 0 0 3000 req0 base_store =
     (\<lparr>code = 400, message = ''Partial payments not allowed for this fee''\<rparr>, base_store) \<and>
   fst (initializePayment no_rounding env_ok 0 0 5000 req0 base_store) \<noteq>
     \<lparr>code = 400, message = ''Partial payments not allowed for this fee''\<rparr>"
proof -
  have f: "findById (fees base_store) 0 = Some fee0"
    by (simp add: base_store_def empty_store_def findById_def)
  have n: "\<not> allowPartialPayment fee0" and a: "fee_amount fee0 = 5000"
    by (simp_all add: fee0_def)
  show ?thesis
    using partial_payment_check [where rnd = no_rounding and env = env_ok and sid = 0 and
          amount = 3000 and req = req0, OF f n]
      partial_payment_check [where rnd = no_rounding and env = env_ok and sid = 0 and
          amount = 5000 and req = req0, OF f n] f n a
    by (auto simp: prod_eq_iff)
qed


end
